theory Spec2Isabelle
  imports Complex_Main
begin

section \<open>JavaScript numbers\<close>

text \<open>
  Every quantity of the simulation is a JavaScript \<open>number\<close>. The model keeps the three
  non-finite values apart from the finite ones, because the program divides without guards
  and \<open>x / 0\<close> does not throw in JavaScript: it yields \<open>Infinity\<close>, \<open>-Infinity\<close> or
  \<open>NaN\<close>, and these values then flow through \<open>Math.min\<close>, \<open>Math.max\<close> and the
  comparisons. Finite values are exact reals: rounding error and overflow of the binary64
  format are not represented, and zero carries no sign (it divides like \<open>+0\<close>).
\<close>

datatype jsnum = Fin real | PInf | NInf | NaN

fun js_neg :: "jsnum \<Rightarrow> jsnum" where
  "js_neg (Fin x) = Fin (- x)"
| "js_neg PInf = NInf"
| "js_neg NInf = PInf"
| "js_neg NaN = NaN"

fun js_add :: "jsnum \<Rightarrow> jsnum \<Rightarrow> jsnum" where
  "js_add (Fin x) (Fin y) = Fin (x + y)"
| "js_add (Fin x) PInf = PInf"
| "js_add (Fin x) NInf = NInf"
| "js_add PInf (Fin y) = PInf"
| "js_add PInf PInf = PInf"
| "js_add PInf NInf = NaN"
| "js_add NInf (Fin y) = NInf"
| "js_add NInf PInf = NaN"
| "js_add NInf NInf = NInf"
| "js_add NaN b = NaN"
| "js_add a NaN = NaN"

definition js_sub :: "jsnum \<Rightarrow> jsnum \<Rightarrow> jsnum" where
  "js_sub a b = js_add a (js_neg b)"

text \<open>The sign rule shared by \<open>*\<close> and \<open>/\<close> when one side is infinite.\<close>

definition signed_inf :: "bool \<Rightarrow> jsnum" where
  "signed_inf pos = (if pos then PInf else NInf)"

fun js_mul :: "jsnum \<Rightarrow> jsnum \<Rightarrow> jsnum" where
  "js_mul (Fin x) (Fin y) = Fin (x * y)"
| "js_mul (Fin x) PInf = (if x = 0 then NaN else signed_inf (0 < x))"
| "js_mul (Fin x) NInf = (if x = 0 then NaN else signed_inf (x < 0))"
| "js_mul PInf (Fin y) = (if y = 0 then NaN else signed_inf (0 < y))"
| "js_mul NInf (Fin y) = (if y = 0 then NaN else signed_inf (y < 0))"
| "js_mul PInf PInf = PInf"
| "js_mul PInf NInf = NInf"
| "js_mul NInf PInf = NInf"
| "js_mul NInf NInf = PInf"
| "js_mul NaN b = NaN"
| "js_mul a NaN = NaN"

fun js_div :: "jsnum \<Rightarrow> jsnum \<Rightarrow> jsnum" where
  "js_div (Fin x) (Fin y) =
     (if y = 0 then (if x = 0 then NaN else signed_inf (0 < x)) else Fin (x / y))"
| "js_div (Fin x) PInf = Fin 0"
| "js_div (Fin x) NInf = Fin 0"
| "js_div PInf (Fin y) = signed_inf (0 \<le> y)"
| "js_div NInf (Fin y) = signed_inf (y < 0)"
| "js_div PInf PInf = NaN"
| "js_div PInf NInf = NaN"
| "js_div NInf PInf = NaN"
| "js_div NInf NInf = NaN"
| "js_div NaN b = NaN"
| "js_div a NaN = NaN"

text \<open>\<open>a < b\<close>: false as soon as one side is \<open>NaN\<close>.\<close>

fun js_lt :: "jsnum \<Rightarrow> jsnum \<Rightarrow> bool" where
  "js_lt (Fin x) (Fin y) = (x < y)"
| "js_lt (Fin x) PInf = True"
| "js_lt (Fin x) NInf = False"
| "js_lt PInf b = False"
| "js_lt NInf (Fin y) = True"
| "js_lt NInf PInf = True"
| "js_lt NInf NInf = False"
| "js_lt NaN b = False"
| "js_lt a NaN = False"

text \<open>\<open>a >= b\<close>: not the negation of \<open>a < b\<close>, since it is false on \<open>NaN\<close> too.\<close>

fun js_ge :: "jsnum \<Rightarrow> jsnum \<Rightarrow> bool" where
  "js_ge NaN b = False"
| "js_ge a NaN = False"
| "js_ge a b = (\<not> js_lt a b)"

text \<open>\<open>Math.min\<close> and \<open>Math.max\<close> return \<open>NaN\<close> when an argument is \<open>NaN\<close>.\<close>

fun js_min :: "jsnum \<Rightarrow> jsnum \<Rightarrow> jsnum" where
  "js_min NaN b = NaN"
| "js_min a NaN = NaN"
| "js_min a b = (if js_lt b a then b else a)"

fun js_max :: "jsnum \<Rightarrow> jsnum \<Rightarrow> jsnum" where
  "js_max NaN b = NaN"
| "js_max a NaN = NaN"
| "js_max a b = (if js_lt a b then b else a)"

fun js_sqrt :: "jsnum \<Rightarrow> jsnum" where
  "js_sqrt (Fin x) = (if x < 0 then NaN else Fin (sqrt x))"
| "js_sqrt PInf = PInf"
| "js_sqrt NInf = NaN"
| "js_sqrt NaN = NaN"

text \<open>\<open>Math.round\<close>: the nearest integer, a tie going up (\<open>floor (x + 0.5)\<close>).\<close>

fun js_round :: "jsnum \<Rightarrow> jsnum" where
  "js_round (Fin x) = Fin (of_int \<lfloor>x + 1 / 2\<rfloor>)"
| "js_round a = a"

fun js_sign :: "jsnum \<Rightarrow> jsnum" where
  "js_sign (Fin x) = Fin (sgn x)"
| "js_sign PInf = Fin 1"
| "js_sign NInf = Fin (- 1)"
| "js_sign NaN = NaN"

text \<open>
  \<open>a % b\<close>: the remainder of the division truncated towards zero; it has the sign of
  the dividend.
\<close>

definition trunc :: "real \<Rightarrow> int" where
  "trunc x = (if 0 \<le> x then \<lfloor>x\<rfloor> else \<lceil>x\<rceil>)"

fun js_mod :: "jsnum \<Rightarrow> jsnum \<Rightarrow> jsnum" where
  "js_mod (Fin x) (Fin y) = (if y = 0 then NaN else Fin (x - y * of_int (trunc (x / y))))"
| "js_mod (Fin x) PInf = Fin x"
| "js_mod (Fin x) NInf = Fin x"
| "js_mod PInf b = NaN"
| "js_mod NInf b = NaN"
| "js_mod NaN b = NaN"
| "js_mod a NaN = NaN"

fun js_cos :: "jsnum \<Rightarrow> jsnum" where
  "js_cos (Fin x) = Fin (cos x)"
| "js_cos a = NaN"

fun js_sin :: "jsnum \<Rightarrow> jsnum" where
  "js_sin (Fin x) = Fin (sin x)"
| "js_sin a = NaN"

text \<open>Comparisons with a finite bound, as the invariants of the planets use them.\<close>

fun finite_num :: "jsnum \<Rightarrow> bool" where
  "finite_num (Fin x) = True"
| "finite_num a = False"

fun js_le :: "jsnum \<Rightarrow> jsnum \<Rightarrow> bool" where
  "js_le NaN b = False"
| "js_le a NaN = False"
| "js_le a b = (\<not> js_lt b a)"

section \<open>Constants of the simulation (sim.ts)\<close>

definition gainFactor :: jsnum where "gainFactor = Fin (1 / 1000)"
definition sim_birthRate :: jsnum where "sim_birthRate = Fin (105 / 100000)"
definition thirstFactor :: jsnum where "thirstFactor = Fin (1 / 2)"
definition quenchDieOff :: jsnum where "quenchDieOff = Fin (1 / 4)"
definition hungerFactor :: jsnum where "hungerFactor = Fin (1 / 2)"
definition hungerDieOff :: jsnum where "hungerDieOff = Fin (1 / 4)"
definition transferFactor :: jsnum where "transferFactor = Fin (2 / 1000000)"

section \<open>Resources and planets (planet.ts)\<close>

record resources =
  water :: jsnum
  food :: jsnum
  energy :: jsnum
  population :: jsnum

datatype resName = Water | Food | Energy | Population

fun res_get :: "resources \<Rightarrow> resName \<Rightarrow> jsnum" where
  "res_get r Water = water r"
| "res_get r Food = food r"
| "res_get r Energy = energy r"
| "res_get r Population = population r"

fun res_set :: "resources \<Rightarrow> resName \<Rightarrow> jsnum \<Rightarrow> resources" where
  "res_set r Water v = r\<lparr>water := v\<rparr>"
| "res_set r Food v = r\<lparr>food := v\<rparr>"
| "res_set r Energy v = r\<lparr>energy := v\<rparr>"
| "res_set r Population v = r\<lparr>population := v\<rparr>"

definition zeroRes :: resources where
  "zeroRes = \<lparr>water = Fin 0, food = Fin 0, energy = Fin 0, population = Fin 0\<rparr>"

definition invert :: "resources \<Rightarrow> resources" where
  "invert res = \<lparr>water = js_neg (water res), food = js_neg (food res),
     energy = js_neg (energy res), population = js_neg (population res)\<rparr>"

record planetaryState =
  gravity :: jsnum
  distance :: jsnum
  period :: jsnum
  theta :: jsnum
  initResources :: resources

record planet =
  name :: string
  info :: planetaryState
  raw :: resources
  available :: resources
  rate :: resources
  qolRate :: jsnum

text \<open>The constructor: \<open>raw\<close> is a copy of the endowment, only the population is available.\<close>

definition Planet :: "string \<Rightarrow> planetaryState \<Rightarrow> planet" where
  "Planet nm state =
     \<lparr>name = nm, info = state, raw = initResources state,
      available = \<lparr>water = Fin 0, food = Fin 0, energy = Fin 0,
        population = population (initResources state)\<rparr>,
      rate = zeroRes, qolRate = Fin 0\<rparr>"

text \<open>
  The reference planet is a module-level object built from \<open>setup.refStd\<close>, a constant
  of another file (setup.ts): it is a parameter here. Every function
  below that reads \<open>refPlanet\<close> takes the reference planet as its first argument.
\<close>

definition refPlanet :: "resources \<Rightarrow> planet" where
  "refPlanet refStd =
     (Planet ''Reference''
        \<lparr>gravity = Fin 1, distance = Fin 1, period = Fin 1, theta = Fin 1,
         initResources = refStd\<rparr>)\<lparr>available := refStd\<rparr>"

definition dead :: "planet \<Rightarrow> bool" where
  "dead pl = (population (available pl) = Fin 0)"

definition abundance :: "planet \<Rightarrow> resName \<Rightarrow> jsnum" where
  "abundance pl resName =
     (let original = res_get (initResources (info pl)) resName
      in js_div (res_get (raw pl) resName) original)"

definition waterPerCapita :: "planet \<Rightarrow> jsnum" where
  "waterPerCapita pl = js_div (water (available pl)) (population (available pl))"

definition foodPerCapita :: "planet \<Rightarrow> jsnum" where
  "foodPerCapita pl = js_div (food (available pl)) (population (available pl))"

definition energyPerCapita :: "planet \<Rightarrow> jsnum" where
  "energyPerCapita pl = js_div (energy (available pl)) (population (available pl))"

text \<open>The two locals of \<open>mu\<close>: the required amount and the amount mined.\<close>

definition reqAmt :: "planet \<Rightarrow> planet \<Rightarrow> jsnum" where
  "reqAmt ref pl = js_mul (population (available pl)) (waterPerCapita ref)"

definition mining :: "planet \<Rightarrow> planet \<Rightarrow> resName \<Rightarrow> jsnum" where
  "mining ref pl resName =
     js_min (res_get (raw pl) resName)
       (js_mul (js_mul (reqAmt ref pl) (js_add (Fin 1) gainFactor)) (abundance pl resName))"

text \<open>\<open>mu\<close> returns the planet after the update and the rate it reports.\<close>

definition mu :: "planet \<Rightarrow> planet \<Rightarrow> resName \<Rightarrow> planet \<times> jsnum" where
  "mu ref pl resName =
     (let req = reqAmt ref pl;
          mined = mining ref pl resName;
          pl1 = pl\<lparr>raw := res_set (raw pl) resName (js_sub (res_get (raw pl) resName) mined)\<rparr>;
          oldAvl = res_get (available pl1) resName;
          pl2 = pl1\<lparr>available :=
                  res_set (available pl1) resName (js_add oldAvl (js_sub mined req))\<rparr>;
          pl3 = pl2\<lparr>available :=
                  res_set (available pl2) resName
                    (js_max (Fin 0) (res_get (available pl2) resName))\<rparr>
      in if oldAvl = Fin 0 then (pl3, Fin 0) else (pl3, js_div (js_sub mined req) oldAvl))"

definition quench :: "planet \<Rightarrow> planet \<Rightarrow> jsnum" where
  "quench ref pl =
     js_sub (js_sqrt (js_div (waterPerCapita pl) (waterPerCapita ref))) thirstFactor"

definition fullness :: "planet \<Rightarrow> planet \<Rightarrow> jsnum" where
  "fullness ref pl =
     js_sub (js_sqrt (js_div (foodPerCapita pl) (foodPerCapita ref))) hungerFactor"

definition qolPerCapita :: "planet \<Rightarrow> planet \<Rightarrow> jsnum" where
  "qolPerCapita ref pl =
     (if population (available pl) = Fin 0 then Fin 0
      else js_add (quench ref pl) (fullness ref pl))"

definition productivity :: "planet \<Rightarrow> planet \<Rightarrow> jsnum" where
  "productivity ref pl = js_div (qolPerCapita ref pl) (qolPerCapita ref ref)"

definition birthRate :: "planet \<Rightarrow> planet \<Rightarrow> jsnum" where
  "birthRate ref pl =
     (if js_lt (quench ref pl) (Fin 0) then js_neg quenchDieOff
      else if js_lt (fullness ref pl) (Fin 0) then js_neg hungerDieOff
      else js_mul
             (js_mul (js_sign (productivity ref pl))
                (js_mul (productivity ref pl) (productivity ref pl)))
             sim_birthRate)"

text \<open>
  \<open>birth\<close> writes the population three times, and the getter \<open>birthRate\<close> reads the
  planet as it is at that moment: after the decrement for the product, after the rounding
  for the value returned.
\<close>

definition set_population :: "planet \<Rightarrow> jsnum \<Rightarrow> planet" where
  "set_population pl v = pl\<lparr>available := (available pl)\<lparr>population := v\<rparr>\<rparr>"

definition birth :: "planet \<Rightarrow> planet \<Rightarrow> planet \<times> jsnum" where
  "birth ref pl =
     (let pl1 = set_population pl (js_sub (population (available pl)) (Fin 1));
          pl2 = set_population pl1
                  (js_mul (population (available pl1)) (js_add (Fin 1) (birthRate ref pl1)));
          pl3 = set_population pl2 (js_round (population (available pl2)))
      in (pl3, birthRate ref pl3))"

definition totalQol :: "planet \<Rightarrow> planet \<Rightarrow> jsnum" where
  "totalQol ref pl = js_mul (qolPerCapita ref pl) (population (available pl))"

definition planet_x :: "planet \<Rightarrow> jsnum" where
  "planet_x pl = js_mul (distance (info pl)) (js_cos (theta (info pl)))"

definition planet_y :: "planet \<Rightarrow> jsnum" where
  "planet_y pl = js_mul (distance (info pl)) (js_sin (theta (info pl)))"

text \<open>The method \<open>distance\<close> of a planet (the field of that name is the orbit's radius).\<close>

definition planet_distance :: "planet \<Rightarrow> planet \<Rightarrow> jsnum" where
  "planet_distance this other =
     (let dx = js_sub (planet_x other) (planet_x this);
          dy = js_sub (planet_y other) (planet_y this)
      in js_sqrt (js_add (js_mul dx dx) (js_mul dy dy)))"

definition two_pi :: jsnum where
  "two_pi = Fin (2 * pi)"

text \<open>
  The statements of \<open>step\<close>, one definition each: \<open>this.rate.r = this.mu(r)\<close>,
  \<open>this.rate.population = this.birth()\<close>, and the two lines of the rotation.
\<close>

definition set_rate :: "planet \<Rightarrow> resName \<Rightarrow> jsnum \<Rightarrow> planet" where
  "set_rate pl resName v = pl\<lparr>rate := res_set (rate pl) resName v\<rparr>"

definition mu_rate :: "planet \<Rightarrow> planet \<Rightarrow> resName \<Rightarrow> planet" where
  "mu_rate ref pl resName = set_rate (fst (mu ref pl resName)) resName (snd (mu ref pl resName))"

definition birth_rate :: "planet \<Rightarrow> planet \<Rightarrow> planet" where
  "birth_rate ref pl = set_rate (fst (birth ref pl)) Population (snd (birth ref pl))"

definition set_theta :: "planet \<Rightarrow> jsnum \<Rightarrow> planet" where
  "set_theta pl v = pl\<lparr>info := (info pl)\<lparr>theta := v\<rparr>\<rparr>"

definition advance_theta :: "planet \<Rightarrow> planet" where
  "advance_theta pl =
     (let pl1 = set_theta pl (js_add (theta (info pl)) (js_div two_pi (period (info pl))))
      in set_theta pl1 (js_mod (theta (info pl1)) two_pi))"

definition step :: "planet \<Rightarrow> planet \<Rightarrow> planet" where
  "step ref pl =
     (let oldQol = totalQol ref pl
      in if population (available pl) = Fin 0 then pl
         else
           (let pl1 = mu_rate ref pl Water;
                pl2 = mu_rate ref pl1 Food;
                pl3 = mu_rate ref pl2 Energy;
                pl4 = birth_rate ref pl3;
                pl5 = advance_theta pl4
            in pl5\<lparr>qolRate := js_sub (js_div (totalQol ref pl5) oldQol) (Fin 1)\<rparr>))"

section \<open>The game (game.ts)\<close>

text \<open>
  \<open>Game.planets\<close> is an object keyed by the planets' names; \<open>Object.values\<close> walks it in
  insertion order, so it is a list of pairs here. The class \<open>Trade\<close> belongs to
  another file (transfer.ts): the ledger is a value of any type \<open>'tr\<close>, and \<open>update\<close>
  takes what \<open>trade.forward()\<close> does to the planets as its first argument. The terminal, the prompter and
  the command table are left out: they hold no state of the simulation.
\<close>

type_synonym planets = "(string \<times> planet) list"

record 'tr game =
  gameOver :: bool
  currentDay :: jsnum
  planets :: planets
  trade :: 'tr
  qolScore :: jsnum

text \<open>The loop over the planets in \<open>update\<close>, carrying \<open>someAlive\<close> and \<open>qolScore\<close>.\<close>

fun update_planets :: "planet \<Rightarrow> planets \<Rightarrow> bool \<Rightarrow> jsnum \<Rightarrow> planets \<times> bool \<times> jsnum" where
  "update_planets ref [] someAlive score = ([], someAlive, score)"
| "update_planets ref ((n, p) # ps) someAlive score =
     (let p1 = step ref p;
          rest = update_planets ref ps (someAlive \<or> \<not> dead p1) (js_add score (totalQol ref p1))
      in ((n, p1) # fst rest, snd rest))"

definition update ::
  "('tr \<Rightarrow> planets \<Rightarrow> planets) \<Rightarrow> planet \<Rightarrow> 'tr game \<Rightarrow> 'tr game \<times> bool" where
  "update ledger_forward ref g =
     (let r = update_planets ref (planets g) False (qolScore g);
          g1 = g\<lparr>planets := fst r, qolScore := snd (snd r)\<rparr>;
          g2 = g1\<lparr>planets := ledger_forward (trade g1) (planets g1)\<rparr>;
          g3 = g2\<lparr>currentDay := js_add (currentDay g2) (Fin 1)\<rparr>
      in (g3, fst (snd r)))"

definition endGame :: "'tr game \<Rightarrow> 'tr game" where
  "endGame g = g\<lparr>gameOver := True\<rparr>"

text \<open>The two errors \<open>forward\<close> throws, with the number each message quotes.\<close>

datatype error = OutOfBounds jsnum | VisualPeriod jsnum

definition MAX_SAFE_INTEGER :: jsnum where
  "MAX_SAFE_INTEGER = Fin (2 ^ 53 - 1)"

text \<open>
  \<open>forward\<close> waits on a timer and on the keyboard. What they decide is an argument of
  the model: a list with one entry for each pass of the \<open>while\<close> loop that starts before
  the user hits Q, the entry being the number of updates that are resolved before the timer
  of that pass sets \<open>overslept\<close>. When the list is used up, \<open>abort\<close> is true and the loop
  ends.

  \<open>drain\<close> is the inner \<open>for\<close> loop. It returns the game, the queue and whether
  the game ended (\<open>forward\<close> then returns at once).
\<close>

fun drain ::
  "('tr game \<Rightarrow> 'tr game \<times> bool) \<Rightarrow> nat \<Rightarrow> 'tr game \<Rightarrow> jsnum \<Rightarrow> 'tr game \<times> jsnum \<times> bool" where
  "drain upd 0 g queue = (g, queue, False)"
| "drain upd (Suc k) g queue =
     (if js_ge queue (Fin 1)
      then (let r = upd g
            in if \<not> snd r then (endGame (fst r), queue, True)
               else drain upd k (fst r) (js_sub queue (Fin 1)))
      else (g, queue, False))"

fun refresh_loop ::
  "('tr game \<Rightarrow> 'tr game \<times> bool) \<Rightarrow> jsnum \<Rightarrow> jsnum \<Rightarrow> nat list \<Rightarrow> 'tr game \<Rightarrow> jsnum
     \<Rightarrow> 'tr game" where
  "refresh_loop upd dps visPer [] g queue = g"
| "refresh_loop upd dps visPer (k # env) g queue =
     (let queue1 = (if js_lt queue (Fin 1)
                    then js_add queue (js_div (js_mul dps visPer) (Fin 1000)) else queue);
          r = drain upd k g queue1
      in if snd (snd r) then fst r
         else refresh_loop upd dps visPer env (fst r) (fst (snd r)))"

definition forward ::
  "('tr \<Rightarrow> planets \<Rightarrow> planets) \<Rightarrow> planet \<Rightarrow> 'tr game \<Rightarrow> jsnum \<Rightarrow> jsnum \<Rightarrow> nat list
     \<Rightarrow> error + 'tr game" where
  "forward ledger_forward ref g dps visPer env =
     (if \<not> js_lt (Fin 0) dps \<and> \<not> js_lt dps MAX_SAFE_INTEGER then Inl (OutOfBounds dps)
      else if \<not> js_lt (Fin 0) visPer then Inl (VisualPeriod visPer)
      else Inr (refresh_loop (update ledger_forward ref) dps visPer env g (Fin 0)))"

section \<open>The trade ledger (transfer.ts)\<close>

text \<open>
  Modelled from the spec: the class \<open>Transfer\<close> of transfer.ts, which is not among the
  sources. A transfer is an ordered pair of planets and the annual amount of each resource
  to move; the planets are referred to by their keys in \<open>Game.planets\<close>.
\<close>

record transfer =
  from_planet :: string
  to_planet :: string
  annual :: resources

text \<open>
  Modelled from the spec: \<open>Trade.applyTransfer\<close> of transfer.ts registers a standing
  flow; two registrations are two entries.
\<close>

definition applyTransfer :: "transfer \<Rightarrow> transfer list \<Rightarrow> transfer list" where
  "applyTransfer t ledger = ledger @ [t]"

text \<open>
  Modelled from the spec: the amount of a transfer that leaves the source on one day,
  \<open>annualAmount / 365\<close> (transfer.ts is missing).
\<close>

definition daily :: "transfer \<Rightarrow> resName \<Rightarrow> jsnum" where
  "daily t resName = js_div (res_get (annual t) resName) (Fin 365)"

text \<open>
  Modelled from the spec: the amount that arrives (transfer.ts is missing). The loss is
  proportional to \<open>transferFactor\<close> times the distance of the two planets, so that a
  daily unit arrives as \<open>1 - transferFactor * distance\<close>.
\<close>

definition arriving :: "transfer \<Rightarrow> jsnum \<Rightarrow> resName \<Rightarrow> jsnum" where
  "arriving t d resName =
     js_mul (daily t resName) (js_sub (Fin 1) (js_mul transferFactor d))"

text \<open>
  Modelled from the spec: the source's side of \<open>Trade.forward\<close> (transfer.ts is
  missing). The daily amount of each resource leaves \<open>available\<close>, with no cap at what
  the source has.
\<close>

definition give :: "transfer \<Rightarrow> planet \<Rightarrow> planet" where
  "give t pl =
     pl\<lparr>available :=
       \<lparr>water = js_sub (water (available pl)) (daily t Water),
        food = js_sub (food (available pl)) (daily t Food),
        energy = js_sub (energy (available pl)) (daily t Energy),
        population = js_sub (population (available pl)) (daily t Population)\<rparr>\<rparr>"

text \<open>
  Modelled from the spec: the destination's side of \<open>Trade.forward\<close> (transfer.ts is
  missing). What arrives is added to \<open>available\<close>; the loss goes to nobody.
\<close>

definition receive :: "transfer \<Rightarrow> jsnum \<Rightarrow> planet \<Rightarrow> planet" where
  "receive t d pl =
     pl\<lparr>available :=
       \<lparr>water = js_add (water (available pl)) (arriving t d Water),
        food = js_add (food (available pl)) (arriving t d Food),
        energy = js_add (energy (available pl)) (arriving t d Energy),
        population = js_add (population (available pl)) (arriving t d Population)\<rparr>\<rparr>"

text \<open>
  Modelled from the spec: a write to one planet of the store that \<open>Trade\<close> shares with
  the game (transfer.ts is missing).
\<close>

fun modify :: "string \<Rightarrow> (planet \<Rightarrow> planet) \<Rightarrow> planets \<Rightarrow> planets" where
  "modify n f [] = []"
| "modify n f ((m, p) # ps) = (if m = n then (m, f p) # ps else (m, p) # modify n f ps)"

text \<open>
  Modelled from the spec: one transfer of \<open>Trade.forward\<close> (transfer.ts is missing).
  The distance is the one between the two planets where they stand on that day.
\<close>

definition move :: "transfer \<Rightarrow> planets \<Rightarrow> planets" where
  "move t ps =
     (case map_of ps (from_planet t) of
        None \<Rightarrow> ps
      | Some a \<Rightarrow>
          (case map_of ps (to_planet t) of
             None \<Rightarrow> ps
           | Some b \<Rightarrow>
               modify (to_planet t) (receive t (planet_distance a b))
                 (modify (from_planet t) (give t) ps)))"

text \<open>
  Modelled from the spec: \<open>Trade.forward\<close> of transfer.ts, run once a day after all
  planets have stepped: every registered transfer moves its daily amount.
\<close>

definition trade_forward :: "transfer list \<Rightarrow> planets \<Rightarrow> planets" where
  "trade_forward ledger ps = fold move ledger ps"

section \<open>Planets and games used as examples\<close>

definition orbit :: "resources \<Rightarrow> planetaryState" where
  "orbit r = \<lparr>gravity = Fin 1, distance = Fin 1, period = Fin 365, theta = Fin 0,
     initResources = r\<rparr>"

definition res :: "real \<Rightarrow> real \<Rightarrow> real \<Rightarrow> real \<Rightarrow> resources" where
  "res w f e p = \<lparr>water = Fin w, food = Fin f, energy = Fin e, population = Fin p\<rparr>"

text \<open>A reference planet where a person needs one unit of each resource.\<close>

definition unitRef :: planet where
  "unitRef = refPlanet (res 1 1 1 1)"

text \<open>A reference planet whose three needs per person differ: 2, 3 and 5.\<close>

definition mixedRef :: planet where
  "mixedRef = refPlanet (res 2 3 5 1)"

text \<open>A planet as the constructor leaves it, with no water in the ground.\<close>

definition barren :: planet where
  "barren = Planet ''barren'' (orbit (res 0 100 100 10))"

text \<open>A mined-out planet on which three tenths of a person are left, with nothing to drink.\<close>

definition sliver :: planet where
  "sliver = (Planet ''sliver'' (orbit (res 100 100 100 10)))
     \<lparr>raw := res 0 0 0 10, available := res 0 0 0 (3 / 10)\<rparr>"

text \<open>A planet whose reserves are mined out: ten people, 100 units of each resource.\<close>

definition exhausted :: planet where
  "exhausted = (Planet ''exhausted'' (orbit (res 100 100 100 10)))
     \<lparr>raw := res 0 0 0 10, available := res 100 100 100 10\<rparr>"

text \<open>Four people with water at the reference level and no food: their total QOL is 0.\<close>

definition balanced :: planet where
  "balanced = (Planet ''balanced'' (orbit (res 100 100 100 4)))
     \<lparr>raw := res 0 0 0 4, available := res 4 0 0 4\<rparr>"

text \<open>A planet nobody lives on.\<close>

definition ghost :: planet where
  "ghost = (Planet ''ghost'' (orbit (res 100 100 100 0)))\<lparr>available := res 7 7 7 0\<rparr>"

text \<open>101 people whose water is short of the die-off threshold by one person.\<close>

definition crowd :: planet where
  "crowd = (Planet ''crowd'' (orbit (res 1000 1000 1000 101)))
     \<lparr>available := res 25 100 0 101\<rparr>"

text \<open>100 people; once one is taken away, water and food are exactly at the threshold.\<close>

definition steady :: planet where
  "steady = (Planet ''steady'' (orbit (res 1000 1000 1000 100)))
     \<lparr>available := res (99 / 4) (99 / 4) 0 100\<rparr>"

text \<open>A ledger that moves nothing, and a game whose two planets are both dead.\<close>

definition no_trade :: "unit \<Rightarrow> planets \<Rightarrow> planets" where
  "no_trade tr ps = ps"

definition deadGame :: "unit game" where
  "deadGame = \<lparr>gameOver = False, currentDay = Fin 0,
     planets = [(''ghost'', ghost), (''wraith'', ghost\<lparr>name := ''wraith''\<rparr>)],
     trade = (), qolScore = Fin 0\<rparr>"

text \<open>Two planets at the centre of the system, and a transfer of 365 units of water a year.\<close>

definition origin :: "string \<Rightarrow> planet" where
  "origin nm = (Planet nm ((orbit (res 100 100 100 10))\<lparr>distance := Fin 0\<rparr>))
     \<lparr>available := res 50 50 50 10\<rparr>"

definition waterYear :: transfer where
  "waterYear = \<lparr>from_planet = ''a'', to_planet = ''b'', annual = res 365 0 0 0\<rparr>"

definition twoAtOrigin :: planets where
  "twoAtOrigin = [(''a'', origin ''a''), (''b'', origin ''b'')]"

text \<open>Whether every planet of the store is dead.\<close>

fun all_dead :: "planets \<Rightarrow> bool" where
  "all_dead [] = True"
| "all_dead ((n, p) # ps) = (dead p \<and> all_dead ps)"

section \<open>The invariant of a planet\<close>

text \<open>
  The bounds the spec asks of one resource: its endowment is not negative, the raw
  reserve lies between 0 and the endowment, and the available amount is not negative. The
  comparisons are JavaScript's, so none of them holds of \<open>NaN\<close>.
\<close>

definition in_bounds :: "planet \<Rightarrow> resName \<Rightarrow> bool" where
  "in_bounds pl r =
     (js_le (Fin 0) (res_get (initResources (info pl)) r) \<and>
      js_le (Fin 0) (res_get (raw pl) r) \<and>
      js_le (res_get (raw pl) r) (res_get (initResources (info pl)) r) \<and>
      js_le (Fin 0) (res_get (available pl) r))"

definition invariant :: "planet \<Rightarrow> bool" where
  "invariant pl =
     (in_bounds pl Water \<and> in_bounds pl Food \<and> in_bounds pl Energy \<and> in_bounds pl Population)"

text \<open>
  The planets on which \<open>step\<close> does keep the bounds: the endowment of water, food and
  energy is a positive number, reserves and stocks are numbers within the bounds, and the
  population is 0 or at least one person. The reference planet must have positive
  numbers of water and food per person.
\<close>

fun js_positive :: "jsnum \<Rightarrow> bool" where
  "js_positive (Fin x) = (0 < x)"
| "js_positive a = False"

fun pop_ok :: "jsnum \<Rightarrow> bool" where
  "pop_ok (Fin p) = (p = 0 \<or> 1 \<le> p)"
| "pop_ok a = False"

fun within_endowment :: "jsnum \<Rightarrow> jsnum \<Rightarrow> jsnum \<Rightarrow> bool" where
  "within_endowment (Fin i) (Fin x) (Fin a) = (0 < i \<and> 0 \<le> x \<and> x \<le> i \<and> 0 \<le> a)"
| "within_endowment i x a = False"

definition stocked :: "planet \<Rightarrow> resName \<Rightarrow> bool" where
  "stocked pl r =
     within_endowment (res_get (initResources (info pl)) r) (res_get (raw pl) r) (res_get (available pl) r)"

definition healthy :: "planet \<Rightarrow> bool" where
  "healthy pl =
     (stocked pl Water \<and> stocked pl Food \<and> stocked pl Energy \<and>
      pop_ok (population (available pl)))"

definition sane_ref :: "planet \<Rightarrow> bool" where
  "sane_ref ref = (js_positive (waterPerCapita ref) \<and> js_positive (foodPerCapita ref))"


section \<open>Unfolding the model\<close>

lemmas num_defs = js_sub_def signed_inf_def gainFactor_def sim_birthRate_def thirstFactor_def
  quenchDieOff_def hungerFactor_def hungerDieOff_def transferFactor_def

lemmas planet_defs = dead_def abundance_def waterPerCapita_def foodPerCapita_def reqAmt_def
  mining_def mu_def quench_def fullness_def qolPerCapita_def productivity_def birthRate_def
  set_population_def birth_def totalQol_def set_rate_def mu_rate_def birth_rate_def
  set_theta_def advance_theta_def Let_def

lemmas ex_defs = unitRef_def mixedRef_def refPlanet_def Planet_def res_def orbit_def zeroRes_def

section \<open>What a step leaves alone\<close>

lemma mu_info: "info (fst (mu ref pl r)) = info pl"
  by (simp add: mu_def Let_def)

lemma mu_name: "name (fst (mu ref pl r)) = name pl"
  by (simp add: mu_def Let_def)

lemma mu_raw_population:
  "r \<noteq> Population \<Longrightarrow> population (raw (fst (mu ref pl r))) = population (raw pl)"
  by (cases r) (simp_all add: mu_def Let_def)

lemma birth_info: "info (fst (birth ref pl)) = info pl"
  by (simp add: birth_def set_population_def Let_def)

lemma birth_raw: "raw (fst (birth ref pl)) = raw pl"
  by (simp add: birth_def set_population_def Let_def)

lemma birth_name: "name (fst (birth ref pl)) = name pl"
  by (simp add: birth_def set_population_def Let_def)

lemma set_rate_frame:
  "info (set_rate pl r v) = info pl" "raw (set_rate pl r v) = raw pl"
  "name (set_rate pl r v) = name pl" "available (set_rate pl r v) = available pl"
  "qolRate (set_rate pl r v) = qolRate pl"
  by (simp_all add: set_rate_def)

lemma mu_rate_frame:
  "info (mu_rate ref pl r) = info pl"
  "name (mu_rate ref pl r) = name pl"
  "r \<noteq> Population \<Longrightarrow> population (raw (mu_rate ref pl r)) = population (raw pl)"
  by (simp_all add: mu_rate_def set_rate_frame mu_info mu_name mu_raw_population)

lemma birth_rate_frame:
  "info (birth_rate ref pl) = info pl"
  "name (birth_rate ref pl) = name pl"
  "raw (birth_rate ref pl) = raw pl"
  by (simp_all add: birth_rate_def set_rate_frame birth_info birth_name birth_raw)

lemma advance_theta_frame:
  "gravity (info (advance_theta pl)) = gravity (info pl)"
  "distance (info (advance_theta pl)) = distance (info pl)"
  "period (info (advance_theta pl)) = period (info pl)"
  "initResources (info (advance_theta pl)) = initResources (info pl)"
  "name (advance_theta pl) = name pl"
  "raw (advance_theta pl) = raw pl"
  "available (advance_theta pl) = available pl"
  "rate (advance_theta pl) = rate pl"
  by (simp_all add: advance_theta_def set_theta_def Let_def)

text \<open>
  C10. Whatever the planet, alive or dead, \<open>step\<close> leaves the gravity, the orbital
  distance, the orbital period and the stored initial endowment as they were, and it does
  not write \<open>raw.population\<close> (nor the name). What it may write is the rest: \<open>theta\<close>,
  the raw water, food and energy, \<open>available\<close>, \<open>rate\<close> and \<open>qolRate\<close>.
\<close>

theorem step_frame:
  "gravity (info (step ref pl)) = gravity (info pl) \<and>
   distance (info (step ref pl)) = distance (info pl) \<and>
   period (info (step ref pl)) = period (info pl) \<and>
   initResources (info (step ref pl)) = initResources (info pl) \<and>
   population (raw (step ref pl)) = population (raw pl) \<and>
   name (step ref pl) = name pl"
  by (simp add: step_def Let_def advance_theta_frame birth_rate_frame mu_rate_frame)

text \<open>
  C3. A planet whose available population is 0 comes out of \<open>step\<close> as it went in: the
  whole record is the same, so \<open>raw\<close>, \<open>available\<close>, \<open>rate\<close>, \<open>qolRate\<close> and the
  orbital angle are all unchanged.
\<close>

theorem step_dead_frozen:
  "population (available pl) = Fin 0 \<Longrightarrow> step ref pl = pl"
  by (simp add: step_def Let_def)

theorem step_dead_frozen_witness:
  "population (available ghost) = Fin 0 \<and> step unitRef ghost = ghost"
proof -
  have dead: "population (available ghost) = Fin 0"
    by (simp add: ghost_def res_def)
  from step_dead_frozen [OF dead] have "step unitRef ghost = ghost" .
  with dead show ?thesis by simp
qed

section \<open>The amount a population requires\<close>

text \<open>
  C1. The claim is that the required amount of a resource is the population times the
  reference planet's need per person of that same resource. \<open>mu\<close> multiplies by the
  reference planet's water per person whatever the resource. On the reference planet with
  needs 2, 3 and 5 and a mined-out planet of ten people holding 100 units of food, the
  required amount is 20, where the food need gives 30, and \<open>mu\<close> leaves 80 units of food
  instead of 70.
\<close>

theorem mu_requires_water_for_food:
  "reqAmt mixedRef exhausted = Fin 20 \<and>
   js_mul (population (available exhausted)) (foodPerCapita mixedRef) = Fin 30 \<and>
   food (available exhausted) = Fin 100 \<and>
   food (available (fst (mu mixedRef exhausted Food))) = Fin 80"
  by (simp add: planet_defs num_defs ex_defs exhausted_def)

section \<open>The rate of the quality of life\<close>

lemma div_zero_not_finite: "\<not> finite_num (js_sub (js_div a (Fin 0)) (Fin 1))"
  by (cases a) (simp_all add: js_sub_def signed_inf_def)

text \<open>
  C4. The claim is that an alive planet whose total QOL is 0 before \<open>step\<close> gets the rate
  0. \<open>step\<close> divides by the old total without a guard (\<open>mu\<close> has one for its own rate):
  the \<open>qolRate\<close> it records is then never a finite number, it is \<open>Infinity\<close>,
  \<open>-Infinity\<close> or \<open>NaN\<close>.
\<close>

theorem step_qolRate_unguarded:
  "population (available pl) \<noteq> Fin 0 \<Longrightarrow> totalQol ref pl = Fin 0 \<Longrightarrow>
   \<not> finite_num (qolRate (step ref pl))"
  by (simp add: step_def Let_def div_zero_not_finite)

theorem step_qolRate_unguarded_witness:
  "population (available balanced) \<noteq> Fin 0 \<and> totalQol unitRef balanced = Fin 0 \<and>
   \<not> finite_num (qolRate (step unitRef balanced)) \<and>
   qolRate (step unitRef balanced) = NInf"
proof -
  have alive: "population (available balanced) \<noteq> Fin 0"
    by (simp add: balanced_def res_def)
  have zero: "totalQol unitRef balanced = Fin 0"
    by (simp add: planet_defs num_defs ex_defs balanced_def)
  from step_qolRate_unguarded [OF alive zero]
  have inf: "\<not> finite_num (qolRate (step unitRef balanced))" .
  have val: "qolRate (step unitRef balanced) = NInf"
    by (simp add: step_def planet_defs num_defs ex_defs balanced_def cong: let_weak_cong)
  from alive zero inf val show ?thesis by simp
qed

section \<open>Mining a reserve that is used up\<close>

lemma res_get_set: "res_get (res_set rs r v) r = v"
  by (cases r) simp_all

text \<open>
  C7. The claim is that \<open>mu\<close>, on a reserve that is used up, mines nothing and takes the
  required daily consumption of that resource off the available amount. The first half
  holds on the planet below: nothing is mined and the raw food stays 0. The second does
  not: the amount \<open>mu\<close> takes off is the one computed from the reference planet's water
  per person (the defect of C1). With reference needs 2, 3 and 5 and ten people holding
  100 units of food, the food required is 30, which leaves 70; \<open>mu\<close> leaves 80.
\<close>

theorem mu_exhausted_food:
  "js_lt (Fin 0) (res_get (initResources (info exhausted)) Food) \<and>
   res_get (raw exhausted) Food = Fin 0 \<and>
   res_get (available exhausted) Food = Fin 100 \<and>
   mining mixedRef exhausted Food = Fin 0 \<and>
   res_get (raw (fst (mu mixedRef exhausted Food))) Food = Fin 0 \<and>
   js_max (Fin 0)
     (js_sub (res_get (available exhausted) Food)
        (js_mul (population (available exhausted)) (foodPerCapita mixedRef))) = Fin 70 \<and>
   res_get (available (fst (mu mixedRef exhausted Food))) Food = Fin 80"
  by (simp add: planet_defs num_defs ex_defs exhausted_def)

section \<open>Births\<close>

lemma sqrt_quarter: "sqrt (1 / 4) = 1 / 2"
  by (simp add: real_sqrt_divide)

lemma sqrt_crowd: "sqrt (25 / 101) * 2 < 1"
proof -
  have "sqrt (25 / 101) < sqrt (1 / 4)"
    by (subst real_sqrt_less_iff) simp
  then show ?thesis by (simp add: sqrt_quarter)
qed

lemma birthRate_crowd: "birthRate unitRef crowd = Fin (- (1 / 4))"
  by (simp add: planet_defs num_defs ex_defs crowd_def sqrt_crowd)

lemma birth_crowd: "population (available (fst (birth unitRef crowd))) = Fin 100"
  by (simp add: planet_defs num_defs ex_defs crowd_def sqrt_quarter cong: let_weak_cong)

text \<open>
  C5, as stated, with \<open>r\<close> the birth rate of the planet on which \<open>birth\<close> is called: it
  fails. With 101 people, 25 units of water and 100 of food (reference needs 1 and 1) the
  planet's birth rate is \<open>-0.25\<close>, the die-off for thirst, and \<open>round((101 - 1) * 0.75)\<close>
  is 75; \<open>birth\<close> leaves 100 people, because it reads the rate after it has taken one
  person away, and 100 people are not thirsty.
\<close>

theorem birth_rate_before_counterexample:
  "population (available crowd) = Fin 101 \<and>
   birthRate unitRef crowd = Fin (- (1 / 4)) \<and>
   js_round (js_mul (js_sub (population (available crowd)) (Fin 1))
      (js_add (Fin 1) (birthRate unitRef crowd))) = Fin 75 \<and>
   population (available (fst (birth unitRef crowd))) = Fin 100 \<and>
   population (available (fst (birth unitRef crowd))) \<noteq>
     js_round (js_mul (js_sub (population (available crowd)) (Fin 1))
       (js_add (Fin 1) (birthRate unitRef crowd)))"
proof -
  have p: "population (available crowd) = Fin 101"
    by (simp add: crowd_def res_def)
  have "js_round (js_mul (js_sub (population (available crowd)) (Fin 1))
      (js_add (Fin 1) (birthRate unitRef crowd))) = Fin 75"
    by (simp add: p birthRate_crowd js_sub_def)
  with p birthRate_crowd birth_crowd show ?thesis by simp
qed

text \<open>
  C5, amended. \<open>birth\<close> sets the population \<open>p\<close> to \<open>round((p - 1) * (1 + r))\<close>
  where \<open>r\<close> is the birth rate of the planet once its population is \<open>p - 1\<close>: the getter
  is read after the decrement. With \<open>p = 100\<close> and that rate 0, the result is 99.
\<close>

theorem birth_population:
  "population (available (fst (birth ref pl))) =
     js_round (js_mul (js_sub (population (available pl)) (Fin 1))
       (js_add (Fin 1)
          (birthRate ref (set_population pl (js_sub (population (available pl)) (Fin 1)))))) \<and>
   (population (available pl) = Fin 100 \<and> birthRate ref (set_population pl (Fin 99)) = Fin 0
      \<longrightarrow> population (available (fst (birth ref pl))) = Fin 99)"
proof -
  have eq: "population (available (fst (birth ref pl))) =
     js_round (js_mul (js_sub (population (available pl)) (Fin 1))
       (js_add (Fin 1)
          (birthRate ref (set_population pl (js_sub (population (available pl)) (Fin 1))))))"
    by (simp add: birth_def set_population_def Let_def)
  have "population (available (fst (birth ref pl))) = Fin 99"
    if "population (available pl) = Fin 100" "birthRate ref (set_population pl (Fin 99)) = Fin 0"
    using that by (simp add: eq js_sub_def)
  with eq show ?thesis by blast
qed

theorem birth_population_witness:
  "population (available steady) = Fin 100 \<and>
   birthRate unitRef (set_population steady (Fin 99)) = Fin 0 \<and>
   population (available (fst (birth unitRef steady))) = Fin 99"
proof -
  have p: "population (available steady) = Fin 100"
    by (simp add: steady_def res_def)
  have r: "birthRate unitRef (set_population steady (Fin 99)) = Fin 0"
    by (simp add: planet_defs num_defs ex_defs steady_def sqrt_quarter)
  from birth_population [of unitRef steady] p r
  have "population (available (fst (birth unitRef steady))) = Fin 99" by blast
  with p r show ?thesis by simp
qed

section \<open>Checking the arguments of forward\<close>

lemma drain_idle: "\<not> js_ge queue (Fin 1) \<Longrightarrow> drain upd k g queue = (g, queue, False)"
  by (cases k) simp_all

lemma gain_nonpositive:
  assumes "js_le dps (Fin 0)" and "js_lt (Fin 0) visPer"
  shows "js_div (js_mul dps visPer) (Fin 1000) = NaN \<or>
         js_le (js_div (js_mul dps visPer) (Fin 1000)) (Fin 0)"
  using assms
  by (cases dps; cases visPer)
     (auto simp: signed_inf_def zero_less_mult_iff)

lemma queue_stays_low:
  assumes "c = NaN \<or> js_le c (Fin 0)" and "\<not> js_ge queue (Fin 1)"
  shows "\<not> js_ge (if js_lt queue (Fin 1) then js_add queue c else queue) (Fin 1)"
  using assms by (cases c; cases queue) auto

lemma refresh_loop_idle:
  assumes "js_div (js_mul dps visPer) (Fin 1000) = NaN \<or>
           js_le (js_div (js_mul dps visPer) (Fin 1000)) (Fin 0)"
  shows "\<not> js_ge queue (Fin 1) \<Longrightarrow> refresh_loop upd dps visPer env g queue = g"
proof (induction env arbitrary: queue)
  case Nil
  show ?case by simp
next
  case (Cons k env)
  let ?q = "if js_lt queue (Fin 1)
            then js_add queue (js_div (js_mul dps visPer) (Fin 1000)) else queue"
  have low: "\<not> js_ge ?q (Fin 1)"
    using assms Cons.prems by (rule queue_stays_low)
  have "drain upd k g ?q = (g, ?q, False)"
    using low by (rule drain_idle)
  then have "refresh_loop upd dps visPer (k # env) g queue = refresh_loop upd dps visPer env g ?q"
    by (simp add: Let_def)
  also have "\<dots> = g"
    using low by (rule Cons.IH)
  finally show ?case .
qed

lemma nonpositive_passes_check:
  "js_le dps (Fin 0) \<Longrightarrow> js_lt dps MAX_SAFE_INTEGER"
  by (cases dps) (simp_all add: MAX_SAFE_INTEGER_def)

text \<open>
  C6. The claim is that a day count that is not positive is rejected before anything
  changes. The check of \<open>forward\<close> joins its two tests with \<open>&&\<close>, so it only throws
  when the number is neither above 0 nor below \<open>MAX_SAFE_INTEGER\<close>, which no number at
  or below 0 is: such a count is accepted, and \<open>forward\<close> runs its refresh loop, without
  a single update, until the user hits Q. (A refresh interval that is not positive is
  rejected, see \<open>forward_rejects_visPer\<close>.)
\<close>

theorem forward_accepts_nonpositive_days:
  assumes "js_le dps (Fin 0)" and "js_lt (Fin 0) visPer"
  shows "forward tf ref g dps visPer env = Inr g"
proof -
  have "refresh_loop (update tf ref) dps visPer env g (Fin 0) = g"
    using gain_nonpositive [OF assms] by (rule refresh_loop_idle) simp
  then show ?thesis
    using assms by (simp add: forward_def nonpositive_passes_check)
qed

theorem forward_accepts_nonpositive_days_witness:
  "js_le (Fin (- 5)) (Fin 0) \<and> js_lt (Fin 0) (Fin 100) \<and>
   forward no_trade unitRef deadGame (Fin (- 5)) (Fin 100) [3, 3] = Inr deadGame"
proof -
  have d: "js_le (Fin (- 5)) (Fin 0)" by simp
  have v: "js_lt (Fin 0) (Fin 100)" by simp
  from forward_accepts_nonpositive_days [OF d v]
  have "forward no_trade unitRef deadGame (Fin (- 5)) (Fin 100) [3, 3] = Inr deadGame" .
  with d v show ?thesis by simp
qed

text \<open>The second check is right: a refresh interval at or below 0 throws at once.\<close>

lemma forward_rejects_visPer:
  "js_lt (Fin 0) dps \<Longrightarrow> \<not> js_lt (Fin 0) visPer \<Longrightarrow>
   forward tf ref g dps visPer env = Inl (VisualPeriod visPer)"
  by (simp add: forward_def)

section \<open>A system with no population left\<close>

lemma step_of_dead: "dead pl \<Longrightarrow> step ref pl = pl"
  by (simp add: step_def dead_def Let_def)

lemma totalQol_dead: "dead pl \<Longrightarrow> totalQol ref pl = Fin 0"
  by (simp add: totalQol_def qolPerCapita_def dead_def)

lemma js_add_zero: "js_add s (Fin 0) = s"
  by (cases s) simp_all

lemma update_planets_all_dead:
  "all_dead ps \<Longrightarrow> update_planets ref ps someAlive score = (ps, someAlive, score)"
  by (induction ps arbitrary: someAlive score)
     (auto simp: step_of_dead totalQol_dead js_add_zero Let_def)

lemma update_all_dead:
  assumes "all_dead (planets g)"
  shows "snd (update tf ref g) = False"
    and "currentDay (fst (update tf ref g)) = js_add (currentDay g) (Fin 1)"
  using assms by (simp_all add: update_def Let_def update_planets_all_dead)

lemma drain_game_over:
  "\<not> snd (upd g) \<Longrightarrow>
   drain upd k g queue =
     (if k \<noteq> 0 \<and> js_ge queue (Fin 1) then (endGame (fst (upd g)), queue, True)
      else (g, queue, False))"
  by (cases k) (simp_all add: Let_def)

lemma refresh_loop_game_over:
  assumes "\<not> snd (upd g)"
  shows "refresh_loop upd dps visPer env g queue = g \<or>
         refresh_loop upd dps visPer env g queue = endGame (fst (upd g))"
proof (induction env arbitrary: queue)
  case Nil
  show ?case by simp
next
  case (Cons k env)
  show ?case
    using Cons.IH assms by (simp add: Let_def drain_game_over [of upd g])
qed

lemma refresh_loop_first_pass:
  assumes "\<not> snd (upd g)" and "js_ge (js_div (js_mul dps visPer) (Fin 1000)) (Fin 1)"
  shows "refresh_loop upd dps visPer (Suc k # env) g (Fin 0) = endGame (fst (upd g))"
proof -
  have "js_add (Fin 0) (js_div (js_mul dps visPer) (Fin 1000)) =
        js_div (js_mul dps visPer) (Fin 1000)"
    by (cases "js_div (js_mul dps visPer) (Fin 1000)") simp_all
  then show ?thesis
    using assms by (simp add: Let_def)
qed

text \<open>
  C8, amended. On a system where every planet has population 0, the first update reports
  liveness false and advances the day counter by 1. \<open>forward\<close> then ends the game and
  returns: whatever the number of days it was given, and whatever the timer and the
  keyboard do, the game it leaves is either untouched (Q came before any update) or the
  game after that one update, marked over. If the first refresh already has a full day in
  its queue, it is the latter: the counter has advanced by exactly 1.
\<close>

theorem forward_all_dead:
  assumes "all_dead (planets g)" and "js_lt (Fin 0) dps" and "js_lt (Fin 0) visPer"
  shows "snd (update tf ref g) = False \<and>
         currentDay (fst (update tf ref g)) = js_add (currentDay g) (Fin 1) \<and>
         (forward tf ref g dps visPer env = Inr g \<or>
          forward tf ref g dps visPer env = Inr (endGame (fst (update tf ref g)))) \<and>
         (js_ge (js_div (js_mul dps visPer) (Fin 1000)) (Fin 1) \<longrightarrow>
          forward tf ref g dps visPer (Suc k # env) = Inr (endGame (fst (update tf ref g))))"
proof -
  have over: "\<not> snd (update tf ref g)"
    using update_all_dead(1) [OF assms(1)] by simp
  have day: "currentDay (fst (update tf ref g)) = js_add (currentDay g) (Fin 1)"
    using assms(1) by (rule update_all_dead(2))
  have fw: "forward tf ref g dps visPer e =
            Inr (refresh_loop (update tf ref) dps visPer e g (Fin 0))" for e
    using assms(2,3) by (simp add: forward_def)
  have most: "forward tf ref g dps visPer env = Inr g \<or>
              forward tf ref g dps visPer env = Inr (endGame (fst (update tf ref g)))"
    using refresh_loop_game_over [of "update tf ref" g dps visPer env "Fin 0"] over
    by (simp add: fw)
  have first: "forward tf ref g dps visPer (Suc k # env) = Inr (endGame (fst (update tf ref g)))"
    if "js_ge (js_div (js_mul dps visPer) (Fin 1000)) (Fin 1)"
    using refresh_loop_first_pass [of "update tf ref" g dps visPer k env] over that
    by (simp add: fw)
  from over day most first show ?thesis by blast
qed

lemma deadGame_all_dead: "all_dead (planets deadGame)"
  by (simp add: deadGame_def dead_def ghost_def res_def)

lemma update_deadGame:
  "update no_trade unitRef deadGame = (deadGame\<lparr>currentDay := Fin 1\<rparr>, False)"
  by (simp add: update_def Let_def update_planets_all_dead [OF deadGame_all_dead] no_trade_def)
     (simp add: deadGame_def)

theorem forward_all_dead_witness:
  "all_dead (planets deadGame) \<and> js_lt (Fin 0) (Fin 20) \<and> js_lt (Fin 0) (Fin 100) \<and>
   js_ge (js_div (js_mul (Fin 20) (Fin 100)) (Fin 1000)) (Fin 1) \<and>
   snd (update no_trade unitRef deadGame) = False \<and>
   currentDay (fst (update no_trade unitRef deadGame)) = Fin 1 \<and>
   forward no_trade unitRef deadGame (Fin 20) (Fin 100) [5] =
     Inr (deadGame\<lparr>gameOver := True, currentDay := Fin 1\<rparr>)"
proof -
  have d: "js_lt (Fin 0) (Fin 20)" and v: "js_lt (Fin 0) (Fin 100)" by simp_all
  have q: "js_ge (js_div (js_mul (Fin 20) (Fin 100)) (Fin 1000)) (Fin 1)" by simp
  have five: "[5] = [Suc 4]" by simp
  from forward_all_dead [OF deadGame_all_dead d v, of no_trade unitRef "[]" 4] q
  have "forward no_trade unitRef deadGame (Fin 20) (Fin 100) [5] =
        Inr (endGame (fst (update no_trade unitRef deadGame)))"
    unfolding five by blast
  then have "forward no_trade unitRef deadGame (Fin 20) (Fin 100) [5] =
     Inr (deadGame\<lparr>gameOver := True, currentDay := Fin 1\<rparr>)"
    by (simp add: update_deadGame endGame_def)
  with deadGame_all_dead d v q show ?thesis by (simp add: update_deadGame)
qed

text \<open>
  C8, as stated (the day counter advances by \<open>N\<close>): it fails. With two dead planets,
  \<open>forward(20)\<close> at the default refresh interval of 100 ms stops after one update, the
  game is over and the counter is at 1, not at 20.
\<close>

theorem forward_days_counterexample:
  "all_dead (planets deadGame) \<and> currentDay deadGame = Fin 0 \<and>
   forward no_trade unitRef deadGame (Fin 20) (Fin 100) [5] =
     Inr (deadGame\<lparr>gameOver := True, currentDay := Fin 1\<rparr>) \<and>
   Fin 1 \<noteq> js_add (currentDay deadGame) (Fin 20)"
proof -
  have five: "[5] = [Suc 4]" by simp
  have over: "\<not> snd (update no_trade unitRef deadGame)"
    by (simp add: update_deadGame)
  have "refresh_loop (update no_trade unitRef) (Fin 20) (Fin 100) [5] deadGame (Fin 0) =
        endGame (fst (update no_trade unitRef deadGame))"
    unfolding five
    using refresh_loop_first_pass [of "update no_trade unitRef" deadGame "Fin 20" "Fin 100" 4 "[]"]
      over by simp
  then have "forward no_trade unitRef deadGame (Fin 20) (Fin 100) [5] =
     Inr (deadGame\<lparr>gameOver := True, currentDay := Fin 1\<rparr>)"
    by (simp add: forward_def MAX_SAFE_INTEGER_def update_deadGame endGame_def)
  moreover have "currentDay deadGame = Fin 0" by (simp add: deadGame_def)
  ultimately show ?thesis using deadGame_all_dead by simp
qed

section \<open>One day of a transfer\<close>

lemma map_of_modify_same:
  "map_of ps n = Some p \<Longrightarrow> map_of (modify n f ps) n = Some (f p)"
  by (induction ps) (auto split: if_splits)

lemma map_of_modify_other:
  "m \<noteq> n \<Longrightarrow> map_of (modify n f ps) m = map_of ps m"
  by (induction ps) auto

lemma trade_forward_registered:
  "trade_forward (applyTransfer t ledger) ps = move t (trade_forward ledger ps)"
  by (simp add: trade_forward_def applyTransfer_def)

lemma move_from:
  assumes "map_of ps (from_planet t) = Some a" and "map_of ps (to_planet t) = Some b"
    and "from_planet t \<noteq> to_planet t"
  shows "map_of (move t ps) (from_planet t) = Some (give t a)"
  using assms by (simp add: move_def map_of_modify_other map_of_modify_same)

lemma move_to:
  assumes "map_of ps (from_planet t) = Some a" and "map_of ps (to_planet t) = Some b"
    and "from_planet t \<noteq> to_planet t"
  shows "map_of (move t ps) (to_planet t) = Some (receive t (planet_distance a b) b)"
proof -
  have "map_of (modify (from_planet t) (give t) ps) (to_planet t) = Some b"
    using assms(2,3) by (simp add: map_of_modify_other)
  then show ?thesis
    using assms(1,2) by (simp add: move_def map_of_modify_same)
qed

lemma give_amount:
  "res_get (available (give t a)) r =
   js_sub (res_get (available a) r) (js_div (res_get (annual t) r) (Fin 365))"
  by (cases r) (simp_all add: give_def daily_def)

lemma receive_amount:
  "res_get (available (receive t d b)) r =
   js_add (res_get (available b) r)
     (js_mul (js_div (res_get (annual t) r) (Fin 365))
        (js_sub (Fin 1) (js_mul transferFactor d)))"
  by (cases r) (simp_all add: receive_def arriving_def daily_def)

text \<open>
  C9. A transfer that has just been registered, between two different planets of the
  store: one call of the ledger's \<open>forward\<close> takes \<open>annualAmount / 365\<close> of every
  resource out of the source's \<open>available\<close> and adds to the destination's that amount
  less the loss, \<open>annualAmount / 365 * (1 - transferFactor * distance)\<close>. When the annual
  amount of water is 365 and the distance is 0, exactly one unit of water arrives.
\<close>

theorem trade_forward_moves:
  assumes "map_of (trade_forward ledger ps) (from_planet t) = Some a"
    and "map_of (trade_forward ledger ps) (to_planet t) = Some b"
    and "from_planet t \<noteq> to_planet t"
  shows "map_of (trade_forward (applyTransfer t ledger) ps) (from_planet t) = Some (give t a) \<and>
         map_of (trade_forward (applyTransfer t ledger) ps) (to_planet t) =
           Some (receive t (planet_distance a b) b) \<and>
         res_get (available (give t a)) r =
           js_sub (res_get (available a) r) (js_div (res_get (annual t) r) (Fin 365)) \<and>
         res_get (available (receive t (planet_distance a b) b)) r =
           js_add (res_get (available b) r)
             (js_mul (js_div (res_get (annual t) r) (Fin 365))
                (js_sub (Fin 1) (js_mul transferFactor (planet_distance a b)))) \<and>
         (water (annual t) = Fin 365 \<and> planet_distance a b = Fin 0 \<longrightarrow>
            water (available (receive t (planet_distance a b) b)) =
              js_add (water (available b)) (Fin 1))"
proof -
  have one: "water (available (receive t (planet_distance a b) b)) =
              js_add (water (available b)) (Fin 1)"
    if "water (annual t) = Fin 365" "planet_distance a b = Fin 0"
    using that receive_amount [of t "Fin 0" b Water] by (simp add: num_defs)
  from move_from [OF assms] move_to [OF assms] give_amount receive_amount one
  show ?thesis unfolding trade_forward_registered by blast
qed

lemma origin_distance: "planet_distance (origin ''a'') (origin ''b'') = Fin 0"
  by (simp add: planet_distance_def planet_x_def planet_y_def origin_def ex_defs js_sub_def)

lemma trade_forward_empty: "trade_forward [] ps = ps"
  by (simp add: trade_forward_def)

theorem trade_forward_moves_witness:
  "map_of (trade_forward [] twoAtOrigin) (from_planet waterYear) = Some (origin ''a'') \<and>
   map_of (trade_forward [] twoAtOrigin) (to_planet waterYear) = Some (origin ''b'') \<and>
   from_planet waterYear \<noteq> to_planet waterYear \<and>
   water (annual waterYear) = Fin 365 \<and>
   planet_distance (origin ''a'') (origin ''b'') = Fin 0 \<and>
   map_of (trade_forward (applyTransfer waterYear []) twoAtOrigin) ''a'' =
     Some (give waterYear (origin ''a'')) \<and>
   map_of (trade_forward (applyTransfer waterYear []) twoAtOrigin) ''b'' =
     Some (receive waterYear (Fin 0) (origin ''b'')) \<and>
   water (available (origin ''a'')) = Fin 50 \<and>
   water (available (give waterYear (origin ''a''))) = Fin 49 \<and>
   water (available (origin ''b'')) = Fin 50 \<and>
   water (available (receive waterYear (Fin 0) (origin ''b''))) = Fin 51"
proof -
  have a: "map_of (trade_forward [] twoAtOrigin) (from_planet waterYear) = Some (origin ''a'')"
    by (simp add: trade_forward_empty twoAtOrigin_def waterYear_def)
  have b: "map_of (trade_forward [] twoAtOrigin) (to_planet waterYear) = Some (origin ''b'')"
    by (simp add: trade_forward_empty twoAtOrigin_def waterYear_def)
  have ne: "from_planet waterYear \<noteq> to_planet waterYear"
    by (simp add: waterYear_def)
  have w: "water (annual waterYear) = Fin 365"
    by (simp add: waterYear_def res_def)
  have av: "water (available (origin ''a'')) = Fin 50" "water (available (origin ''b'')) = Fin 50"
    by (simp_all add: origin_def ex_defs)
  have names: "from_planet waterYear = ''a''" "to_planet waterYear = ''b''"
    by (simp_all add: waterYear_def)
  note inst = trade_forward_moves [OF a b ne, of Water, unfolded origin_distance names]
  from inst a b ne w av origin_distance show ?thesis
    by (simp add: num_defs)
qed

section \<open>Where a step keeps the bounds\<close>

text \<open>
  \<open>mu\<close> caps what it mines at the reserve and clamps the stock at 0; \<open>birth\<close> never
  multiplies by less than \<open>0.75\<close>. On numbers that are finite, with a positive endowment
  and at least one person, this keeps every bound. The lemmas follow \<open>step\<close> statement
  by statement.
\<close>

lemma within_endowmentE:
  assumes "within_endowment i x a"
  obtains i' x' a' where "i = Fin i'" "x = Fin x'" "a = Fin a'" "0 < i'" "0 \<le> x'" "x' \<le> i'" "0 \<le> a'"
  using assms by (cases i; cases x; cases a) simp_all

lemma js_positiveE:
  assumes "js_positive w" obtains w' where "w = Fin w'" "0 < w'"
  using assms by (cases w) simp_all

lemma pop_okE:
  assumes "pop_ok p" obtains p' where "p = Fin p'" "p' = 0 \<or> 1 \<le> p'"
  using assms by (cases p) simp_all

lemma mu_other_raw: "r' \<noteq> r \<Longrightarrow> res_get (raw (fst (mu ref pl r))) r' = res_get (raw pl) r'"
  by (cases r; cases r') (simp_all add: mu_def Let_def)

lemma mu_other_available:
  "r' \<noteq> r \<Longrightarrow> res_get (available (fst (mu ref pl r))) r' = res_get (available pl) r'"
  by (cases r; cases r') (simp_all add: mu_def Let_def)

lemma mu_raw_target:
  "res_get (raw (fst (mu ref pl r))) r = js_sub (res_get (raw pl) r) (mining ref pl r)"
  by (simp add: mu_def Let_def res_get_set)

lemma mu_available_target:
  "res_get (available (fst (mu ref pl r))) r =
   js_max (Fin 0) (js_add (res_get (available pl) r) (js_sub (mining ref pl r) (reqAmt ref pl)))"
  by (simp add: mu_def Let_def res_get_set)

lemma mu_target:
  assumes "stocked pl r" and "reqAmt ref pl = Fin q" and "0 \<le> q"
  shows "stocked (fst (mu ref pl r)) r"
proof -
  from assms(1) obtain i x a where
    v: "res_get (initResources (info pl)) r = Fin i" "res_get (raw pl) r = Fin x"
       "res_get (available pl) r = Fin a"
    and b: "0 < i" "0 \<le> x" "x \<le> i" "0 \<le> a"
    unfolding stocked_def by (rule within_endowmentE)
  define m where "m = q * (1 + 1 / 1000) * (x / i)"
  have mined: "mining ref pl r = Fin (min x m)"
    using b by (simp add: mining_def abundance_def v assms(2) gainFactor_def m_def min_def)
  have raw': "res_get (raw (fst (mu ref pl r))) r = Fin (x - min x m)"
    by (simp add: mu_raw_target mined v js_sub_def)
  have av': "res_get (available (fst (mu ref pl r))) r = Fin (max 0 (a + (min x m - q)))"
    by (simp add: mu_available_target mined v assms(2) js_sub_def max_def)
  have "0 \<le> m"
    using b assms(3) by (simp add: m_def)
  then have "0 \<le> x - min x m" "x - min x m \<le> i"
    using b by (simp_all add: min_def)
  then show ?thesis
    using b by (simp add: stocked_def mu_info v raw' av')
qed

lemma mu_other:
  assumes "stocked pl r'" and "r' \<noteq> r"
  shows "stocked (fst (mu ref pl r)) r'"
  using assms by (simp add: stocked_def mu_info mu_other_raw mu_other_available)

lemma mu_population:
  "r \<noteq> Population \<Longrightarrow> population (available (fst (mu ref pl r))) = population (available pl)"
  using mu_other_available [of Population r ref pl] by simp

lemma reqAmt_nonneg:
  assumes "sane_ref ref" and "pop_ok (population (available pl))"
  obtains q where "reqAmt ref pl = Fin q" "0 \<le> q"
proof -
  from assms(1) obtain w where w: "waterPerCapita ref = Fin w" "0 < w"
    unfolding sane_ref_def by (auto elim: js_positiveE)
  from assms(2) obtain p where p: "population (available pl) = Fin p" "p = 0 \<or> 1 \<le> p"
    by (rule pop_okE)
  have "reqAmt ref pl = Fin (p * w)" by (simp add: reqAmt_def w p)
  moreover have "0 \<le> p * w" using w p by auto
  ultimately show ?thesis by (rule that)
qed

lemma mu_healthy:
  assumes "sane_ref ref" and "healthy pl" and "r \<noteq> Population"
  shows "healthy (fst (mu ref pl r))"
proof -
  from assms(1,2) obtain q where q: "reqAmt ref pl = Fin q" "0 \<le> q"
    unfolding healthy_def by (blast elim: reqAmt_nonneg)
  have "stocked (fst (mu ref pl r)) r'" if "stocked pl r'" for r'
    using that q by (cases "r' = r") (simp_all add: mu_target mu_other)
  then show ?thesis
    using assms(2,3) by (simp add: healthy_def mu_population)
qed

lemma set_rate_healthy: "healthy (set_rate pl r v) = healthy pl"
  by (simp add: healthy_def stocked_def set_rate_frame)

lemma mu_rate_healthy:
  "sane_ref ref \<Longrightarrow> healthy pl \<Longrightarrow> r \<noteq> Population \<Longrightarrow> healthy (mu_rate ref pl r)"
  by (simp add: mu_rate_def set_rate_healthy mu_healthy)


lemma div_by_zero_not_finite: "js_div a (Fin 0) \<noteq> Fin w"
  by (cases a) (simp_all add: signed_inf_def)

lemma div_by_inf_zero: "js_div a PInf = Fin w \<Longrightarrow> w = 0" "js_div a NInf = Fin w \<Longrightarrow> w = 0"
  by (cases a; simp)+

lemma sane_refE:
  assumes "sane_ref ref"
  obtains w f where "waterPerCapita ref = Fin w" "0 < w" "foodPerCapita ref = Fin f" "0 < f"
  using assms unfolding sane_ref_def
  by (cases "waterPerCapita ref"; cases "foodPerCapita ref") simp_all

lemma birth_sets:
  "population (available (fst (birth ref pl))) =
     js_round (js_mul (js_sub (population (available pl)) (Fin 1))
       (js_add (Fin 1)
          (birthRate ref (set_population pl (js_sub (population (available pl)) (Fin 1))))))"
  by (simp add: birth_def set_population_def Let_def)

lemma sane_ref_qol:
  assumes "sane_ref ref"
  shows "qolPerCapita ref ref = Fin 1"
proof -
  from assms obtain w f where w: "waterPerCapita ref = Fin w" "0 < w"
    and f: "foodPerCapita ref = Fin f" "0 < f"
    by (rule sane_refE)
  have "population (available ref) \<noteq> Fin 0"
    using w(1) by (auto simp: waterPerCapita_def div_by_zero_not_finite)
  then show ?thesis
    using w f by (simp add: qolPerCapita_def quench_def fullness_def num_defs)
qed

lemma growth_nonneg:
  assumes "0 \<le> x"
  shows "js_mul (js_mul (js_sign (js_div (Fin x) (Fin 1)))
            (js_mul (js_div (Fin x) (Fin 1)) (js_div (Fin x) (Fin 1)))) sim_birthRate
         = Fin (sgn x * (x * x) * (105 / 100000))"
    and "0 \<le> sgn x * (x * x) * (105 / 100000 :: real)"
  using assms by (simp_all add: sim_birthRate_def sgn_if)

lemma birthRate_bound:
  assumes "sane_ref ref"
    and "water (available pl) = Fin a" and "0 \<le> a"
    and "food (available pl) = Fin b" and "0 \<le> b"
    and "population (available pl) = Fin n" and "0 \<le> n"
  obtains \<rho> where "birthRate ref pl = Fin \<rho>" "- (1 / 4) \<le> \<rho>"
proof (cases "js_lt (quench ref pl) (Fin 0) \<or> js_lt (fullness ref pl) (Fin 0)")
  case True
  then have "birthRate ref pl = Fin (- (1 / 4))"
    by (auto simp: birthRate_def quenchDieOff_def hungerDieOff_def)
  then show ?thesis by (rule that) simp
next
  case False
  from assms(1) obtain w f where w: "waterPerCapita ref = Fin w" "0 < w"
    and f: "foodPerCapita ref = Fin f" "0 < f"
    by (rule sane_refE)
  have rate: "birthRate ref pl =
     js_mul (js_mul (js_sign (productivity ref pl))
        (js_mul (productivity ref pl) (productivity ref pl))) sim_birthRate"
    using False by (simp add: birthRate_def)
  show ?thesis
  proof (cases "n = 0")
    case True
    then have "productivity ref pl = js_div (Fin 0) (Fin 1)"
      by (simp add: productivity_def qolPerCapita_def [of ref pl] assms(6) sane_ref_qol [OF assms(1)])
    then have "birthRate ref pl = Fin (sgn 0 * (0 * 0) * (105 / 100000))"
      unfolding rate using growth_nonneg(1) [of 0] by simp
    then show ?thesis by (rule that) simp
  next
    case False
    then have n: "0 < n" using assms(7) by simp
    define qn where "qn = sqrt (a / n / w) - 1 / 2"
    define fn where "fn = sqrt (b / n / f) - 1 / 2"
    have "0 \<le> a / (n * w)" "0 \<le> b / (n * f)"
      using n w(2) f(2) assms(3,5) by simp_all
    then have nn: "\<not> a / (n * w) < 0" "\<not> b / (n * f) < 0"
      by simp_all
    have q: "quench ref pl = Fin qn"
      using n w nn
      by (simp add: quench_def waterPerCapita_def [of pl] assms(2,6) num_defs qn_def)
    have fl: "fullness ref pl = Fin fn"
      using n f nn
      by (simp add: fullness_def foodPerCapita_def [of pl] assms(4,6) num_defs fn_def)
    from \<open>\<not> (js_lt (quench ref pl) (Fin 0) \<or> js_lt (fullness ref pl) (Fin 0))\<close>
    have pos: "0 \<le> qn + fn"
      by (simp add: q fl)
    have "productivity ref pl = js_div (Fin (qn + fn)) (Fin 1)"
      using n
      by (simp add: productivity_def qolPerCapita_def [of ref pl] assms(6) q fl
          sane_ref_qol [OF assms(1)])
    then have "birthRate ref pl = Fin (sgn (qn + fn) * ((qn + fn) * (qn + fn)) * (105 / 100000))"
      unfolding rate using growth_nonneg(1) [OF pos] by simp
    moreover have "- (1 / 4) \<le> sgn (qn + fn) * ((qn + fn) * (qn + fn)) * (105 / 100000)"
      using growth_nonneg(2) [OF pos] by linarith
    ultimately show ?thesis by (rule that)
  qed
qed

lemma birth_available_other:
  "r \<noteq> Population \<Longrightarrow> res_get (available (fst (birth ref pl))) r = res_get (available pl) r"
  by (cases r) (simp_all add: birth_def set_population_def Let_def)

lemma round_pop_ok: "0 \<le> x \<Longrightarrow> pop_ok (js_round (Fin x))"
proof -
  assume "0 \<le> x"
  then have "0 \<le> \<lfloor>x + 1 / 2\<rfloor>" by simp
  then have "\<lfloor>x + 1 / 2\<rfloor> = 0 \<or> 1 \<le> \<lfloor>x + 1 / 2\<rfloor>" by linarith
  then show ?thesis by auto
qed

lemma birth_healthy:
  assumes "sane_ref ref" and "healthy pl" and "population (available pl) \<noteq> Fin 0"
  shows "healthy (fst (birth ref pl))"
proof -
  from assms(2) obtain p where p: "population (available pl) = Fin p" "p = 0 \<or> 1 \<le> p"
    unfolding healthy_def by (blast elim: pop_okE)
  with assms(3) have p1: "0 \<le> p - 1" by simp
  from assms(2) obtain a where a: "water (available pl) = Fin a" "0 \<le> a"
    unfolding healthy_def stocked_def by (auto elim!: within_endowmentE)
  from assms(2) obtain b where b: "food (available pl) = Fin b" "0 \<le> b"
    unfolding healthy_def stocked_def by (auto elim!: within_endowmentE)
  define pl1 where "pl1 = set_population pl (js_sub (population (available pl)) (Fin 1))"
  have pl1: "water (available pl1) = Fin a" "food (available pl1) = Fin b"
    "population (available pl1) = Fin (p - 1)"
    by (simp_all add: pl1_def set_population_def a b p js_sub_def)
  from assms(1) pl1(1) a(2) pl1(2) b(2) pl1(3) p1
  obtain \<rho> where r: "birthRate ref pl1 = Fin \<rho>" "- (1 / 4) \<le> \<rho>"
    by (rule birthRate_bound)
  have "population (available (fst (birth ref pl))) = js_round (Fin ((p - 1) * (1 + \<rho>)))"
    unfolding birth_sets pl1_def [symmetric] by (simp add: r(1) p js_sub_def)
  moreover have "0 \<le> (p - 1) * (1 + \<rho>)"
    using p1 r(2) by simp
  ultimately have "pop_ok (population (available (fst (birth ref pl))))"
    by (simp only: round_pop_ok)
  moreover have "stocked (fst (birth ref pl)) r" if "stocked pl r" "r \<noteq> Population" for r
    using that by (simp add: stocked_def birth_info birth_raw birth_available_other)
  ultimately show ?thesis
    using assms(2) by (simp add: healthy_def)
qed

lemma mu_rate_population:
  "r \<noteq> Population \<Longrightarrow> population (available (mu_rate ref pl r)) = population (available pl)"
  by (simp add: mu_rate_def set_rate_frame mu_population)

lemma advance_theta_healthy: "healthy (advance_theta pl) = healthy pl"
  by (simp add: healthy_def stocked_def advance_theta_frame)

lemma qolRate_healthy: "healthy (pl\<lparr>qolRate := v\<rparr>) = healthy pl"
  by (simp add: healthy_def stocked_def)

lemma step_healthy:
  assumes "sane_ref ref" and "healthy pl"
  shows "healthy (step ref pl)"
proof (cases "population (available pl) = Fin 0")
  case True
  then show ?thesis using assms(2) by (simp add: step_def Let_def)
next
  case False
  define pl3 where "pl3 = mu_rate ref (mu_rate ref (mu_rate ref pl Water) Food) Energy"
  have h3: "healthy pl3"
    unfolding pl3_def using assms by (simp add: mu_rate_healthy)
  have "population (available pl3) \<noteq> Fin 0"
    unfolding pl3_def using False by (simp add: mu_rate_population)
  with assms(1) h3 have "healthy (fst (birth ref pl3))"
    by (rule birth_healthy)
  then have "healthy (birth_rate ref pl3)"
    by (simp add: birth_rate_def set_rate_healthy)
  then show ?thesis
    using False by (simp add: step_def Let_def pl3_def qolRate_healthy advance_theta_healthy)
qed

lemma healthy_in_bounds:
  assumes "healthy pl"
  shows "in_bounds pl Water \<and> in_bounds pl Food \<and> in_bounds pl Energy \<and>
         js_le (Fin 0) (population (available pl))"
  using assms unfolding healthy_def stocked_def in_bounds_def
  by (auto elim!: within_endowmentE pop_okE)

text \<open>
  With a reference planet and a planet as above, \<open>step\<close> keeps the bounds
  (\<open>step_healthy\<close>, \<open>healthy_in_bounds\<close>). The next section shows what happens
  outside: with an endowment of 0, and with a fraction of a person.
\<close>

section \<open>Where a step breaks the bounds\<close>

lemma mu_keeps_water:
  "r \<noteq> Water \<Longrightarrow> water (raw (fst (mu ref pl r))) = water (raw pl)"
  "r \<noteq> Water \<Longrightarrow> water (available (fst (mu ref pl r))) = water (available pl)"
  using mu_other_raw [of Water r ref pl] mu_other_available [of Water r ref pl] by simp_all

lemma step_water:
  assumes "population (available pl) \<noteq> Fin 0"
  shows "water (raw (step ref pl)) = water (raw (fst (mu ref pl Water)))"
    and "water (available (step ref pl)) = water (available (fst (mu ref pl Water)))"
  using assms birth_available_other [of Water ref]
  by (simp_all add: step_def Let_def advance_theta_frame birth_rate_def birth_raw mu_rate_def
      set_rate_frame mu_keeps_water)

lemma barren_invariant: "invariant barren"
  by (simp add: invariant_def in_bounds_def barren_def ex_defs)

lemma barren_mu:
  "water (raw (fst (mu unitRef barren Water))) = NaN"
  "water (available (fst (mu unitRef barren Water))) = NaN"
  by (simp_all add: planet_defs num_defs ex_defs barren_def)

text \<open>
  C2. The claim is that \<open>step\<close> keeps the bounds on every planet whose endowments are
  not negative. A planet with no water in the ground satisfies them as the constructor
  leaves it, and \<open>abundance\<close> divides by its endowment: \<open>0 / 0\<close> is \<open>NaN\<close>, which
  \<open>Math.min\<close> and \<open>Math.max\<close> pass on. After one step the raw and the available water
  are \<open>NaN\<close>, of which neither \<open>>= 0\<close> nor \<open><= initial\<close> holds.
\<close>

theorem step_zero_endowment:
  "invariant barren \<and>
   water (initResources (info barren)) = Fin 0 \<and>
   population (available barren) = Fin 10 \<and>
   water (raw (step unitRef barren)) = NaN \<and>
   water (available (step unitRef barren)) = NaN \<and>
   \<not> invariant (step unitRef barren)"
proof -
  have alive: "population (available barren) \<noteq> Fin 0"
    by (simp add: barren_def ex_defs)
  have r: "water (raw (step unitRef barren)) = NaN"
    by (simp add: step_water(1) [OF alive] barren_mu)
  have a: "water (available (step unitRef barren)) = NaN"
    by (simp add: step_water(2) [OF alive] barren_mu)
  have "\<not> invariant (step unitRef barren)"
    by (simp add: invariant_def in_bounds_def r)
  moreover have "water (initResources (info barren)) = Fin 0"
    "population (available barren) = Fin 10"
    by (simp_all add: barren_def ex_defs)
  ultimately show ?thesis using barren_invariant r a by simp
qed

text \<open>
  A population between 0 and 1 (a transfer moves populations by 365ths) also leaves the
  bounds: \<open>birth\<close> takes a whole person away first.
\<close>

lemma step_sliver:
  "invariant sliver \<and> population (available (step unitRef sliver)) = Fin (- 1)"
proof -
  have "invariant sliver"
    by (simp add: invariant_def in_bounds_def sliver_def ex_defs)
  moreover have "population (available (step unitRef sliver)) = Fin (- 1)"
    by (simp add: step_def planet_defs num_defs ex_defs sliver_def cong: let_weak_cong)
  ultimately show ?thesis by simp
qed

text \<open>The reference planet of the examples is one for which the bounds are kept.\<close>

lemma unitRef_sane: "sane_ref unitRef"
  by (simp add: sane_ref_def waterPerCapita_def foodPerCapita_def ex_defs)

end
